theory Spec2Isabelle
  imports Main
begin

section \<open>The storage tier of the render farm (lib/storage_tier.py)\<close>

text \<open>
  The module declares three stacks: \<open>StorageTier\<close> (a shared file system),
  \<open>StorageTierDocDB\<close> (adds a DocumentDB cluster) and \<open>StorageTierMongoDB\<close> (adds a
  MongoDB instance with its certificates and a post-install step). Each constructor only
  builds a description: it calls the constructors of the provisioning library with keyword
  arguments and stores two attributes on \<open>self\<close>.

  A library construct is modelled as the record of the arguments the source passes to it
  (a keyword the source does not pass is not a field), and a construct created with
  \<open>self\<close> as its scope is appended to the children of the stack, in the order of the
  source. The constructors \<open>StorageTier_init\<close>, \<open>StorageTierDocDB_init\<close> and
  \<open>StorageTierMongoDB_init\<close> give the description that is built when the library
  accepts every declaration; the one failure the module's own code can raise, the index
  into the list of availability zones, is a branch of them. The validation of the library
  is not part of this module: the constructors named \<open>_checked\<close> take it as a
  parameter and raise where the library does.
\<close>

subsection \<open>Values of the provisioning library\<close>

datatype error = IndexError | RuntimeError string

datatype Construct = Construct string

datatype RemovalPolicy = DESTROY | RETAIN | SNAPSHOT

datatype SubnetType = ISOLATED | PRIVATE | PUBLIC

datatype TimeUnit = Milliseconds | Seconds | Minutes | Hours | Days

record Duration =
  amount :: nat
  unit :: TimeUnit

definition Duration_days :: "nat \<Rightarrow> Duration" where
  "Duration_days n = \<lparr> amount = n, unit = Days \<rparr>"

datatype InstanceType = InstanceType string

datatype MongoDbSsplLicenseAcceptance = USER_REJECTS_SSPL | USER_ACCEPTS_SSPL

datatype MongoDbVersion = COMMUNITY_3_6

record IVpc =
  vpc_id :: string
  availability_zones :: "string list"

record IPrivateHostedZone =
  hosted_zone_id :: string
  zone_name :: string

record SubnetSelection =
  subnet_type :: SubnetType
  availability_zones :: "string list option"

record FileSystem =
  construct_id :: string
  vpc :: IVpc
  removal_policy :: RemovalPolicy

record MountableEfs =
  filesystem :: FileSystem

record InstanceProps =
  vpc :: IVpc
  vpc_subnets :: SubnetSelection
  instance_type :: InstanceType

record Login =
  username :: string

record BackupProps =
  retention :: Duration

record DatabaseCluster =
  construct_id :: string
  instance_props :: InstanceProps
  instances :: nat
  master_user :: Login
  engine_version :: string
  backup :: BackupProps
  removal_policy :: RemovalPolicy

text \<open>The keyword \<open>o\<close> of \<open>DistinguishedName\<close> is the field \<open>o'\<close>.\<close>

record DistinguishedName =
  cn :: string
  o' :: string
  ou :: string

datatype X509CertificatePem =
  X509CertificatePem
    (construct_id: string)
    (subject: DistinguishedName)
    (signing_certificate: "X509CertificatePem option")

record X509CertificatePkcs12 =
  construct_id :: string
  source_certificate :: X509CertificatePem

text \<open>
  Two attributes of library objects are read by the module: \<open>doc_db.secret\<close>, the
  credential secret the cluster generates, and \<open>client_cert.cert\<close>, the secret holding
  the public certificate. Each is a handle naming the object it is read from.
\<close>

datatype ISecret = secret DatabaseCluster | cert X509CertificatePem

record MongoDbApplicationProps =
  user_sspl_acceptance :: MongoDbSsplLicenseAcceptance
  version :: MongoDbVersion
  hostname :: string
  dns_zone :: IPrivateHostedZone
  server_certificate :: X509CertificatePem

record MongoDbInstance =
  construct_id :: string
  vpc :: IVpc
  vpc_subnets :: SubnetSelection
  key_name :: "string option"
  instance_type :: InstanceType
  mongo_db :: MongoDbApplicationProps

record MongoDbX509User =
  certificate :: ISecret
  roles :: string

record MongoDbUsers =
  x509_auth_users :: "MongoDbX509User list"

record MongoDbPostInstallSetup =
  construct_id :: string
  vpc :: IVpc
  vpc_subnets :: SubnetSelection
  mongo_db :: MongoDbInstance
  users :: MongoDbUsers

datatype DatabaseConnection =
  for_doc_db DatabaseCluster ISecret
| for_mongo_db_instance MongoDbInstance X509CertificatePkcs12

subsection \<open>Stacks and their children\<close>

datatype IConstruct =
  CFileSystem FileSystem
| CDatabaseCluster DatabaseCluster
| CX509CertificatePem X509CertificatePem
| CX509CertificatePkcs12 X509CertificatePkcs12
| CMongoDbInstance MongoDbInstance
| CMongoDbPostInstallSetup MongoDbPostInstallSetup

fun node_id :: "IConstruct \<Rightarrow> string" where
  "node_id (CFileSystem c) = FileSystem.construct_id c"
| "node_id (CDatabaseCluster c) = DatabaseCluster.construct_id c"
| "node_id (CX509CertificatePem c) = X509CertificatePem.construct_id c"
| "node_id (CX509CertificatePkcs12 c) = X509CertificatePkcs12.construct_id c"
| "node_id (CMongoDbInstance c) = MongoDbInstance.construct_id c"
| "node_id (CMongoDbPostInstallSetup c) = MongoDbPostInstallSetup.construct_id c"

text \<open>
  The removal policy a declaration carries: the two constructs the module passes
  \<open>removal_policy\<close> to have one, the others are declared without that keyword.
\<close>

fun declared_removal_policy :: "IConstruct \<Rightarrow> RemovalPolicy option" where
  "declared_removal_policy (CFileSystem c) = Some (FileSystem.removal_policy c)"
| "declared_removal_policy (CDatabaseCluster c) = Some (DatabaseCluster.removal_policy c)"
| "declared_removal_policy (CX509CertificatePem c) = None"
| "declared_removal_policy (CX509CertificatePkcs12 c) = None"
| "declared_removal_policy (CMongoDbInstance c) = None"
| "declared_removal_policy (CMongoDbPostInstallSetup c) = None"

record Stack =
  stack_scope :: Construct
  stack_id :: string
  stack_kwargs :: "(string \<times> string) list"
  children :: "IConstruct list"

definition Stack_init :: "Construct \<Rightarrow> string \<Rightarrow> (string \<times> string) list \<Rightarrow> Stack" where
  "Stack_init scope sid kwargs =
     \<lparr> stack_scope = scope, stack_id = sid, stack_kwargs = kwargs, children = [] \<rparr>"

definition add_child :: "IConstruct \<Rightarrow> 'a Stack_scheme \<Rightarrow> 'a Stack_scheme" where
  "add_child c self = self \<lparr> children := children self @ [c] \<rparr>"

definition try_find_child :: "string \<Rightarrow> 'a Stack_scheme \<Rightarrow> IConstruct option" where
  "try_find_child i self = find (\<lambda>c. node_id c = i) (children self)"

text \<open>The removal policies declared in a stack, in the order of its children.\<close>

definition declared_removal_policies :: "'a Stack_scheme \<Rightarrow> RemovalPolicy list" where
  "declared_removal_policies self = List.map_filter declared_removal_policy (children self)"

text \<open>
  The stack is documented as holding the constructs that persist data: the file system
  and the database, which is the DocumentDB cluster or the MongoDB instance. Certificates,
  the bundle and the post-install step hold no data of the render farm.
\<close>

fun stateful :: "IConstruct \<Rightarrow> bool" where
  "stateful (CFileSystem c) = True"
| "stateful (CDatabaseCluster c) = True"
| "stateful (CX509CertificatePem c) = False"
| "stateful (CX509CertificatePkcs12 c) = False"
| "stateful (CMongoDbInstance c) = True"
| "stateful (CMongoDbPostInstallSetup c) = False"

definition stateful_resources :: "'a Stack_scheme \<Rightarrow> IConstruct list" where
  "stateful_resources self = filter stateful (children self)"

definition stateful_resources_destroy :: "'a Stack_scheme \<Rightarrow> bool" where
  "stateful_resources_destroy self =
     list_all (\<lambda>c. declared_removal_policy c = Some DESTROY) (stateful_resources self)"

subsection \<open>\<open>json.dumps\<close> on strings, lists and dictionaries\<close>

text \<open>
  The role payload is built with \<open>json.dumps\<close> from a list of dictionaries with
  string keys and string values. The fragment of the encoder those values reach, with its
  default settings (\<open>ensure_ascii\<close>, separators \<open>', '\<close> and \<open>': '\<close>): a
  dictionary is an association list in insertion order, a character is a code point
  below 256.
\<close>

datatype json = JStr string | JList "json list" | JDict "(string \<times> json) list"

definition hex_digit :: "nat \<Rightarrow> char" where
  "hex_digit n = ''0123456789abcdef'' ! (n mod 16)"

definition escape_ascii :: "char \<Rightarrow> string" where
  "escape_ascii c =
     (if c = CHR 0x5C then [CHR 0x5C, CHR 0x5C]
      else if c = CHR 0x22 then [CHR 0x5C, CHR 0x22]
      else if c = CHR 0x08 then [CHR 0x5C, CHR ''b'']
      else if c = CHR 0x0C then [CHR 0x5C, CHR ''f'']
      else if c = CHR 0x0A then [CHR 0x5C, CHR ''n'']
      else if c = CHR 0x0D then [CHR 0x5C, CHR ''r'']
      else if c = CHR 0x09 then [CHR 0x5C, CHR ''t'']
      else if (0x20::nat) \<le> of_char c \<and> of_char c \<le> (0x7E::nat) then [c]
      else [CHR 0x5C, CHR ''u'', CHR ''0'', CHR ''0'',
            hex_digit (of_char c div 16), hex_digit (of_char c mod 16)])"

definition encode_basestring_ascii :: "string \<Rightarrow> string" where
  "encode_basestring_ascii s = [CHR 0x22] @ concat (map escape_ascii s) @ [CHR 0x22]"

fun json_dumps :: "json \<Rightarrow> string"
  and dumps_items :: "json list \<Rightarrow> string"
  and dumps_pairs :: "(string \<times> json) list \<Rightarrow> string" where
  "json_dumps (JStr s) = encode_basestring_ascii s"
| "json_dumps (JList xs) = ''['' @ dumps_items xs @ '']''"
| "json_dumps (JDict kvs) = ''{'' @ dumps_pairs kvs @ ''}''"
| "dumps_items [] = []"
| "dumps_items [x] = json_dumps x"
| "dumps_items (x # y # ys) = json_dumps x @ '', '' @ dumps_items (y # ys)"
| "dumps_pairs [] = []"
| "dumps_pairs [(k, v)] = encode_basestring_ascii k @ '': '' @ json_dumps v"
| "dumps_pairs ((k, v) # p # ps) =
     encode_basestring_ascii k @ '': '' @ json_dumps v @ '', '' @ dumps_pairs (p # ps)"

subsection \<open>List indexing\<close>

text \<open>\<open>xs[i]\<close> for an index that is not negative: out of range raises \<open>IndexError\<close>.\<close>

definition getitem :: "'a list \<Rightarrow> nat \<Rightarrow> error + 'a" where
  "getitem xs i = (if i < length xs then Inr (xs ! i) else Inl IndexError)"

subsection \<open>Properties\<close>

record StorageTierProps =
  vpc :: IVpc

record StorageTierDocDBProps = StorageTierProps +
  database_instance_type :: InstanceType

record StorageTierMongoDBProps = StorageTierProps +
  database_instance_type :: InstanceType
  root_ca :: X509CertificatePem
  dns_zone :: IPrivateHostedZone
  accept_sspl_license :: MongoDbSsplLicenseAcceptance
  key_pair_name :: "string option"

subsection \<open>The stacks\<close>

text \<open>
  \<open>StorageTier\<close> extends \<open>Stack\<close> with the attributes \<open>file_system\<close> and
  \<open>database\<close>. The field \<open>database_assignments\<close> is not an attribute of the source: it
  records, in order, the value of every assignment \<open>self.database = ...\<close> that has run,
  so that the number of assignments can be stated. A record has all its fields from the
  start: the base constructor creates \<open>database\<close> as \<open>None\<close> with an empty list of
  assignments, and its statement \<open>self.database = None\<close> is then the first assignment.
\<close>

record StorageTier = Stack +
  file_system :: MountableEfs
  database :: "DatabaseConnection option"
  database_assignments :: "DatabaseConnection option list"

definition set_database ::
  "DatabaseConnection option \<Rightarrow> StorageTier \<Rightarrow> StorageTier" where
  "set_database v self =
     self \<lparr> database := v, database_assignments := database_assignments self @ [v] \<rparr>"

definition StorageTier_init ::
  "Construct \<Rightarrow> string \<Rightarrow> 'a StorageTierProps_scheme \<Rightarrow> (string \<times> string) list \<Rightarrow> StorageTier" where
  "StorageTier_init scope sid props kwargs =
     (let self = Stack_init scope sid kwargs;
          fs = \<lparr> FileSystem.construct_id = ''EfsFileSystem'',
                 FileSystem.vpc = StorageTierProps.vpc props,
                 FileSystem.removal_policy = DESTROY \<rparr>;
          self = add_child (CFileSystem fs) self;
          self = Stack.extend self
                   (StorageTier.fields \<lparr> filesystem = fs \<rparr> None [])
      in set_database None self)"

definition StorageTierDocDB_init ::
  "Construct \<Rightarrow> string \<Rightarrow> StorageTierDocDBProps \<Rightarrow> (string \<times> string) list \<Rightarrow> StorageTier" where
  "StorageTierDocDB_init scope sid props kwargs =
     (let self = StorageTier_init scope sid props kwargs;
          instance_props =
            \<lparr> InstanceProps.vpc = StorageTierProps.vpc props,
              InstanceProps.vpc_subnets =
                \<lparr> subnet_type = PRIVATE, SubnetSelection.availability_zones = None \<rparr>,
              InstanceProps.instance_type =
                StorageTierDocDBProps.database_instance_type props \<rparr>;
          doc_db =
            \<lparr> DatabaseCluster.construct_id = ''DocDBCluster'',
              instance_props = instance_props,
              instances = 1,
              master_user = \<lparr> username = ''adminuser'' \<rparr>,
              engine_version = ''3.6.0'',
              backup = \<lparr> retention = Duration_days 15 \<rparr>,
              DatabaseCluster.removal_policy = DESTROY \<rparr>;
          self = add_child (CDatabaseCluster doc_db) self
      in set_database (Some (for_doc_db doc_db (secret doc_db))) self)"

text \<open>
  The role list the MongoDB variant passes to \<open>json.dumps\<close>.
\<close>

definition x509_user_roles :: json where
  "x509_user_roles =
     JList [JDict [(''role'', JStr ''readWriteAnyDatabase''), (''db'', JStr ''admin'')],
            JDict [(''role'', JStr ''clusterMonitor''), (''db'', JStr ''admin'')]]"

definition StorageTierMongoDB_init ::
  "Construct \<Rightarrow> string \<Rightarrow> StorageTierMongoDBProps \<Rightarrow> (string \<times> string) list
     \<Rightarrow> error + StorageTier" where
  "StorageTierMongoDB_init scope sid props kwargs =
     (let self = StorageTier_init scope sid props kwargs;
          server_cert =
            X509CertificatePem ''MongoCert''
              \<lparr> cn = ''mongo.'' @ zone_name (StorageTierMongoDBProps.dns_zone props),
                o' = ''RFDK-Sample'',
                ou = ''MongoServer'' \<rparr>
              (Some (root_ca props));
          self = add_child (CX509CertificatePem server_cert) self;
          client_cert =
            X509CertificatePem ''DeadlineMongoCert''
              \<lparr> cn = ''SampleUser'', o' = ''RFDK-Sample'', ou = ''MongoClient'' \<rparr>
              (Some (root_ca props));
          self = add_child (CX509CertificatePem client_cert) self;
          client_pkcs12 =
            \<lparr> X509CertificatePkcs12.construct_id = ''DeadlineMongoPkcs12'',
              source_certificate = client_cert \<rparr>;
          self = add_child (CX509CertificatePkcs12 client_pkcs12) self
      in case getitem (IVpc.availability_zones (StorageTierProps.vpc props)) 0 of
           Inl e \<Rightarrow> Inl e
         | Inr availability_zone \<Rightarrow>
            (let mongo_vpc_subnet =
                   \<lparr> subnet_type = PRIVATE,
                     SubnetSelection.availability_zones = Some [availability_zone] \<rparr>;
                 mongo_db =
                   \<lparr> MongoDbInstance.construct_id = ''MongoDb'',
                     MongoDbInstance.vpc = StorageTierProps.vpc props,
                     MongoDbInstance.vpc_subnets = mongo_vpc_subnet,
                     key_name = key_pair_name props,
                     MongoDbInstance.instance_type =
                       StorageTierMongoDBProps.database_instance_type props,
                     MongoDbInstance.mongo_db =
                       \<lparr> user_sspl_acceptance = accept_sspl_license props,
                         version = COMMUNITY_3_6,
                         hostname = ''mongo'',
                         MongoDbApplicationProps.dns_zone =
                           StorageTierMongoDBProps.dns_zone props,
                         server_certificate = server_cert \<rparr> \<rparr>;
                 self = add_child (CMongoDbInstance mongo_db) self;
                 mongo_db_post_install_setup =
                   \<lparr> MongoDbPostInstallSetup.construct_id = ''MongoDbPostInstall'',
                     MongoDbPostInstallSetup.vpc = StorageTierProps.vpc props,
                     MongoDbPostInstallSetup.vpc_subnets = mongo_vpc_subnet,
                     MongoDbPostInstallSetup.mongo_db = mongo_db,
                     users =
                       \<lparr> x509_auth_users =
                           [\<lparr> certificate = cert client_cert,
                              roles = json_dumps x509_user_roles \<rparr>] \<rparr> \<rparr>;
                 self = add_child (CMongoDbPostInstallSetup mongo_db_post_install_setup) self
             in Inr (set_database
                       (Some (for_mongo_db_instance mongo_db client_pkcs12)) self)))"

subsection \<open>The constructors under the validation of the library\<close>

text \<open>
  A constructor of the library may raise instead of returning the construct. What it
  accepts is not decided by this module, so it is a parameter: \<open>accepts c\<close> says that
  the library returns the construct \<open>c\<close>, and a refused declaration raises, which ends
  the construction at that statement. The error carries the id of the refused construct.
  The statements run in the order of the source, so that a declaration refused before
  line 211 is raised before the zone list is read.
\<close>

definition and_then :: "error + 'a \<Rightarrow> ('a \<Rightarrow> error + 'b) \<Rightarrow> error + 'b" where
  "and_then r f = (case r of Inl e \<Rightarrow> Inl e | Inr x \<Rightarrow> f x)"

definition new_child ::
  "(IConstruct \<Rightarrow> bool) \<Rightarrow> IConstruct \<Rightarrow> 'a Stack_scheme \<Rightarrow> error + 'a Stack_scheme" where
  "new_child accepts c self =
     (if accepts c then Inr (add_child c self) else Inl (RuntimeError (node_id c)))"

definition StorageTier_init_checked ::
  "(IConstruct \<Rightarrow> bool) \<Rightarrow> Construct \<Rightarrow> string \<Rightarrow> 'a StorageTierProps_scheme
     \<Rightarrow> (string \<times> string) list \<Rightarrow> error + StorageTier" where
  "StorageTier_init_checked accepts scope sid props kwargs =
     (let self = Stack_init scope sid kwargs;
          fs = \<lparr> FileSystem.construct_id = ''EfsFileSystem'',
                 FileSystem.vpc = StorageTierProps.vpc props,
                 FileSystem.removal_policy = DESTROY \<rparr>
      in and_then (new_child accepts (CFileSystem fs) self) (\<lambda>self.
           Inr (set_database None
                  (Stack.extend self (StorageTier.fields \<lparr> filesystem = fs \<rparr> None [])))))"

definition StorageTierDocDB_init_checked ::
  "(IConstruct \<Rightarrow> bool) \<Rightarrow> Construct \<Rightarrow> string \<Rightarrow> StorageTierDocDBProps
     \<Rightarrow> (string \<times> string) list \<Rightarrow> error + StorageTier" where
  "StorageTierDocDB_init_checked accepts scope sid props kwargs =
     and_then (StorageTier_init_checked accepts scope sid props kwargs) (\<lambda>self.
       let instance_props =
             \<lparr> InstanceProps.vpc = StorageTierProps.vpc props,
               InstanceProps.vpc_subnets =
                 \<lparr> subnet_type = PRIVATE, SubnetSelection.availability_zones = None \<rparr>,
               InstanceProps.instance_type =
                 StorageTierDocDBProps.database_instance_type props \<rparr>;
           doc_db =
             \<lparr> DatabaseCluster.construct_id = ''DocDBCluster'',
               instance_props = instance_props,
               instances = 1,
               master_user = \<lparr> username = ''adminuser'' \<rparr>,
               engine_version = ''3.6.0'',
               backup = \<lparr> retention = Duration_days 15 \<rparr>,
               DatabaseCluster.removal_policy = DESTROY \<rparr>
       in and_then (new_child accepts (CDatabaseCluster doc_db) self) (\<lambda>self.
            Inr (set_database (Some (for_doc_db doc_db (secret doc_db))) self)))"

definition StorageTierMongoDB_init_checked ::
  "(IConstruct \<Rightarrow> bool) \<Rightarrow> Construct \<Rightarrow> string \<Rightarrow> StorageTierMongoDBProps
     \<Rightarrow> (string \<times> string) list \<Rightarrow> error + StorageTier" where
  "StorageTierMongoDB_init_checked accepts scope sid props kwargs =
     and_then (StorageTier_init_checked accepts scope sid props kwargs) (\<lambda>self.
       let server_cert =
             X509CertificatePem ''MongoCert''
               \<lparr> cn = ''mongo.'' @ zone_name (StorageTierMongoDBProps.dns_zone props),
                 o' = ''RFDK-Sample'',
                 ou = ''MongoServer'' \<rparr>
               (Some (root_ca props))
       in and_then (new_child accepts (CX509CertificatePem server_cert) self) (\<lambda>self.
       let client_cert =
             X509CertificatePem ''DeadlineMongoCert''
               \<lparr> cn = ''SampleUser'', o' = ''RFDK-Sample'', ou = ''MongoClient'' \<rparr>
               (Some (root_ca props))
       in and_then (new_child accepts (CX509CertificatePem client_cert) self) (\<lambda>self.
       let client_pkcs12 =
             \<lparr> X509CertificatePkcs12.construct_id = ''DeadlineMongoPkcs12'',
               source_certificate = client_cert \<rparr>
       in and_then (new_child accepts (CX509CertificatePkcs12 client_pkcs12) self) (\<lambda>self.
       and_then (getitem (IVpc.availability_zones (StorageTierProps.vpc props)) 0)
         (\<lambda>availability_zone.
       let mongo_vpc_subnet =
             \<lparr> subnet_type = PRIVATE,
               SubnetSelection.availability_zones = Some [availability_zone] \<rparr>;
           mongo_db =
             \<lparr> MongoDbInstance.construct_id = ''MongoDb'',
               MongoDbInstance.vpc = StorageTierProps.vpc props,
               MongoDbInstance.vpc_subnets = mongo_vpc_subnet,
               key_name = key_pair_name props,
               MongoDbInstance.instance_type =
                 StorageTierMongoDBProps.database_instance_type props,
               MongoDbInstance.mongo_db =
                 \<lparr> user_sspl_acceptance = accept_sspl_license props,
                   version = COMMUNITY_3_6,
                   hostname = ''mongo'',
                   MongoDbApplicationProps.dns_zone =
                     StorageTierMongoDBProps.dns_zone props,
                   server_certificate = server_cert \<rparr> \<rparr>
       in and_then (new_child accepts (CMongoDbInstance mongo_db) self) (\<lambda>self.
       let mongo_db_post_install_setup =
             \<lparr> MongoDbPostInstallSetup.construct_id = ''MongoDbPostInstall'',
               MongoDbPostInstallSetup.vpc = StorageTierProps.vpc props,
               MongoDbPostInstallSetup.vpc_subnets = mongo_vpc_subnet,
               MongoDbPostInstallSetup.mongo_db = mongo_db,
               users =
                 \<lparr> x509_auth_users =
                     [\<lparr> certificate = cert client_cert,
                        roles = json_dumps x509_user_roles \<rparr>] \<rparr> \<rparr>
       in and_then
            (new_child accepts (CMongoDbPostInstallSetup mongo_db_post_install_setup) self)
            (\<lambda>self.
       Inr (set_database
              (Some (for_mongo_db_instance mongo_db client_pkcs12)) self))))))))"

text \<open>
  The kinds of construct the MongoDB variant declares before it reads the zone list
  (lines 79 to 209): the file system, the two certificates and the bundle.
\<close>

fun declared_before_zone_selection :: "IConstruct \<Rightarrow> bool" where
  "declared_before_zone_selection (CFileSystem c) = True"
| "declared_before_zone_selection (CDatabaseCluster c) = False"
| "declared_before_zone_selection (CX509CertificatePem c) = True"
| "declared_before_zone_selection (CX509CertificatePkcs12 c) = True"
| "declared_before_zone_selection (CMongoDbInstance c) = False"
| "declared_before_zone_selection (CMongoDbPostInstallSetup c) = False"

definition accepts_before_zone_selection :: "(IConstruct \<Rightarrow> bool) \<Rightarrow> bool" where
  "accepts_before_zone_selection accepts =
     (\<forall>c. declared_before_zone_selection c \<longrightarrow> accepts c)"


fun requires_sspl_acceptance :: "IConstruct \<Rightarrow> bool" where
  "requires_sspl_acceptance (CMongoDbInstance m) =
     (user_sspl_acceptance (MongoDbInstance.mongo_db m) = USER_ACCEPTS_SSPL)"
| "requires_sspl_acceptance c = True"

subsection \<open>A sample deployment\<close>

definition sample_vpc :: IVpc where
  "sample_vpc = \<lparr> vpc_id = ''vpc-0a1b'', IVpc.availability_zones = [''us-west-2a'', ''us-west-2b''] \<rparr>"

definition sample_root_ca :: X509CertificatePem where
  "sample_root_ca =
     X509CertificatePem ''RootCA''
       \<lparr> cn = ''SampleRootCA'', o' = ''RFDK-Sample'', ou = ''CA'' \<rparr> None"

definition sample_mongo_props :: StorageTierMongoDBProps where
  "sample_mongo_props =
     \<lparr> StorageTierProps.vpc = sample_vpc,
       StorageTierMongoDBProps.database_instance_type = InstanceType ''r5.large'',
       root_ca = sample_root_ca,
       StorageTierMongoDBProps.dns_zone =
         \<lparr> hosted_zone_id = ''Z1'', zone_name = ''deadline-test.internal'' \<rparr>,
       accept_sspl_license = USER_ACCEPTS_SSPL,
       key_pair_name = None \<rparr>"

definition sample_docdb_props :: StorageTierDocDBProps where
  "sample_docdb_props =
     \<lparr> StorageTierProps.vpc = sample_vpc,
       StorageTierDocDBProps.database_instance_type = InstanceType ''r5.large'' \<rparr>"



section \<open>Properties of the constructors\<close>

subsection \<open>Auxiliary facts\<close>

lemma getitem_0: "getitem xs 0 = (case xs of [] \<Rightarrow> Inl IndexError | x # _ \<Rightarrow> Inr x)"
  by (cases xs) (simp_all add: getitem_def)

lemmas init_defs =
  StorageTierMongoDB_init_def StorageTierDocDB_init_def StorageTier_init_def Stack_init_def
  add_child_def set_database_def Stack.extend_def StorageTier.fields_def Let_def
  try_find_child_def

lemma StorageTierMongoDB_init_succeeds:
  "IVpc.availability_zones (StorageTierProps.vpc props) \<noteq> [] \<Longrightarrow>
     \<exists>st. StorageTierMongoDB_init scope sid props kw = Inr st"
  by (cases "IVpc.availability_zones (StorageTierProps.vpc props)")
     (simp_all add: StorageTierMongoDB_init_def getitem_0 Let_def)

lemma sample_zones:
  "IVpc.availability_zones (StorageTierProps.vpc sample_mongo_props)
     = [''us-west-2a'', ''us-west-2b'']"
  by (simp add: sample_mongo_props_def sample_vpc_def)

lemma sample_mongo_init_succeeds:
  "\<exists>st. StorageTierMongoDB_init (Construct ''App'') ''StorageTier'' sample_mongo_props [] = Inr st"
  using StorageTierMongoDB_init_succeeds
          [of sample_mongo_props "Construct ''App''" "''StorageTier''" "[]"]
  unfolding sample_zones by blast

lemmas checked_defs =
  StorageTierMongoDB_init_checked_def StorageTierDocDB_init_checked_def
  StorageTier_init_checked_def and_then_def new_child_def

text \<open>
  A stack constructed under any library is the stack the unchecked constructor describes,
  and a library that accepts every declaration constructs exactly that stack. So what is
  proved of \<open>StorageTier_init\<close>, \<open>StorageTierDocDB_init\<close> and
  \<open>StorageTierMongoDB_init\<close> holds of every constructed stack.
\<close>

lemma StorageTier_init_checked_Inr:
  "StorageTier_init_checked accepts scope sid props kw = Inr st \<Longrightarrow>
     st = StorageTier_init scope sid props kw"
  by (auto simp: checked_defs init_defs split: if_splits)

lemma StorageTierDocDB_init_checked_Inr:
  "StorageTierDocDB_init_checked accepts scope sid props kw = Inr st \<Longrightarrow>
     st = StorageTierDocDB_init scope sid props kw"
  by (auto simp: checked_defs init_defs split: if_splits)

lemma StorageTierMongoDB_init_checked_Inr:
  "StorageTierMongoDB_init_checked accepts scope sid props kw = Inr st \<Longrightarrow>
     StorageTierMongoDB_init scope sid props kw = Inr st"
  by (auto simp: checked_defs init_defs getitem_0 split: if_splits list.splits)

lemma StorageTierMongoDB_init_checked_accepts_all:
  "(\<And>c. accepts c) \<Longrightarrow>
     StorageTierMongoDB_init_checked accepts scope sid props kw
       = StorageTierMongoDB_init scope sid props kw"
  by (auto simp: checked_defs init_defs getitem_0 split: list.splits)




lemma accepts_before_zone_selection_sspl:
  "accepts_before_zone_selection requires_sspl_acceptance"
  unfolding accepts_before_zone_selection_def
proof (intro allI impI)
  fix c assume "declared_before_zone_selection c"
  then show "requires_sspl_acceptance c" by (cases c) simp_all
qed

subsection \<open>The database attribute\<close>

text \<open>
  C1. After the base constructor the attribute \<open>database\<close> is \<open>None\<close> and the only
  assignment that has run is the one of \<open>None\<close>. Each variant constructor runs the base
  constructor and then assigns a connection exactly once: the assignments of a constructed
  variant are \<open>None\<close> followed by one connection, which is the final value of the
  attribute. The classes define no method besides their constructor, so nothing assigns
  the attribute after construction.
\<close>

theorem database_assigned_once_per_variant:
  assumes "StorageTierMongoDB_init scope sid mprops kw = Inr mst"
  shows "database (StorageTier_init scope sid props kw) = None
       \<and> database_assignments (StorageTier_init scope sid props kw) = [None]
       \<and> (\<exists>c. database (StorageTierDocDB_init scope sid dprops kw) = Some c
              \<and> database_assignments (StorageTierDocDB_init scope sid dprops kw)
                   = [None, Some c])
       \<and> (\<exists>c. database mst = Some c \<and> database_assignments mst = [None, Some c])"
  using assms by (auto simp: init_defs getitem_0 split: list.splits)

theorem database_assigned_once_per_variant_witness:
  "\<exists>mst. StorageTierMongoDB_init (Construct ''App'') ''StorageTier'' sample_mongo_props []
            = Inr mst
     \<and> database (StorageTier_init (Construct ''App'') ''StorageTier'' sample_docdb_props [])
            = None
     \<and> (\<exists>c. database
                 (StorageTierDocDB_init (Construct ''App'') ''StorageTier'' sample_docdb_props [])
               = Some c
            \<and> database_assignments
                 (StorageTierDocDB_init (Construct ''App'') ''StorageTier'' sample_docdb_props [])
               = [None, Some c])
     \<and> (\<exists>c. database mst = Some c \<and> database_assignments mst = [None, Some c])"
proof -
  obtain mst where h:
    "StorageTierMongoDB_init (Construct ''App'') ''StorageTier'' sample_mongo_props [] = Inr mst"
    using sample_mongo_init_succeeds by blast
  from database_assigned_once_per_variant
         [OF h, of sample_docdb_props sample_docdb_props]
  show ?thesis using h by blast
qed

subsection \<open>The DocumentDB variant\<close>

text \<open>
  C2. The connection of a \<open>StorageTierDocDB\<close> wraps the cluster declared under the id
  \<open>DocDBCluster\<close>, and that cluster is declared with one instance and a backup retention
  of 15 days.
\<close>

theorem docdb_connection_single_instance_retention_15_days:
  "\<exists>c l. database (StorageTierDocDB_init scope sid props kw) = Some (for_doc_db c l)
       \<and> try_find_child ''DocDBCluster'' (StorageTierDocDB_init scope sid props kw)
            = Some (CDatabaseCluster c)
       \<and> instances c = 1
       \<and> retention (backup c) = Duration_days 15
       \<and> amount (retention (backup c)) = 15 \<and> unit (retention (backup c)) = Days"
  by (simp add: init_defs Duration_days_def)

text \<open>
  C8. The cluster of a \<open>StorageTierDocDB\<close> is declared with the login \<open>adminuser\<close> and
  the engine version \<open>3.6.0\<close>, and the connection wraps that cluster together with the
  secret read from it.
\<close>

theorem docdb_login_engine_version_and_secret:
  "\<exists>c. try_find_child ''DocDBCluster'' (StorageTierDocDB_init scope sid props kw)
            = Some (CDatabaseCluster c)
       \<and> username (master_user c) = ''adminuser''
       \<and> engine_version c = ''3.6.0''
       \<and> database (StorageTierDocDB_init scope sid props kw) = Some (for_doc_db c (secret c))"
  by (simp add: init_defs)

subsection \<open>The MongoDB variant\<close>



text \<open>
  C6. When the VPC has at least one availability zone, the subnet selection of the
  MongoDB instance is restricted to one zone, the first of the VPC's list, and the
  post-install step uses the same selection (and the same instance).
\<close>

theorem mongodb_single_availability_zone:
  assumes "IVpc.availability_zones (StorageTierProps.vpc props) \<noteq> []"
  shows "\<exists>st m ps.
           StorageTierMongoDB_init scope sid props kw = Inr st
         \<and> try_find_child ''MongoDb'' st = Some (CMongoDbInstance m)
         \<and> try_find_child ''MongoDbPostInstall'' st = Some (CMongoDbPostInstallSetup ps)
         \<and> MongoDbInstance.vpc_subnets m =
             \<lparr> subnet_type = PRIVATE,
               SubnetSelection.availability_zones =
                 Some [hd (IVpc.availability_zones (StorageTierProps.vpc props))] \<rparr>
         \<and> MongoDbPostInstallSetup.vpc_subnets ps = MongoDbInstance.vpc_subnets m
         \<and> MongoDbPostInstallSetup.mongo_db ps = m"
  using assms
  by (cases "IVpc.availability_zones (StorageTierProps.vpc props)")
     (auto simp: init_defs getitem_0)

theorem mongodb_single_availability_zone_witness:
  "IVpc.availability_zones (StorageTierProps.vpc sample_mongo_props) \<noteq> []
   \<and> (\<exists>st m ps.
         StorageTierMongoDB_init (Construct ''App'') ''StorageTier'' sample_mongo_props [] = Inr st
       \<and> try_find_child ''MongoDb'' st = Some (CMongoDbInstance m)
       \<and> try_find_child ''MongoDbPostInstall'' st = Some (CMongoDbPostInstallSetup ps)
       \<and> MongoDbInstance.vpc_subnets m =
           \<lparr> subnet_type = PRIVATE,
             SubnetSelection.availability_zones = Some [''us-west-2a''] \<rparr>
       \<and> MongoDbPostInstallSetup.vpc_subnets ps = MongoDbInstance.vpc_subnets m)"
proof -
  have h: "IVpc.availability_zones (StorageTierProps.vpc sample_mongo_props) \<noteq> []"
    by (simp add: sample_zones)
  from mongodb_single_availability_zone
         [OF h, of "Construct ''App''" "''StorageTier''" "[]"]
  show ?thesis using h unfolding sample_zones list.sel by blast
qed

text \<open>
  C4. The server certificate and the client certificate of a \<open>StorageTierMongoDB\<close> are
  both declared with the root authority of the properties as their signing certificate;
  the bundle in the connection is derived from that client certificate and the instance
  is given that server certificate.
\<close>

theorem mongodb_certificates_signed_by_root_ca:
  assumes "StorageTierMongoDB_init scope sid props kw = Inr st"
  shows "\<exists>server client m p.
           try_find_child ''MongoCert'' st = Some (CX509CertificatePem server)
         \<and> try_find_child ''DeadlineMongoCert'' st = Some (CX509CertificatePem client)
         \<and> signing_certificate server = Some (root_ca props)
         \<and> signing_certificate client = Some (root_ca props)
         \<and> database st = Some (for_mongo_db_instance m p)
         \<and> source_certificate p = client
         \<and> server_certificate (MongoDbInstance.mongo_db m) = server"
  using assms by (auto simp: init_defs getitem_0 split: list.splits)

theorem mongodb_certificates_signed_by_root_ca_witness:
  "\<exists>st server client m p.
       StorageTierMongoDB_init (Construct ''App'') ''StorageTier'' sample_mongo_props [] = Inr st
     \<and> try_find_child ''MongoCert'' st = Some (CX509CertificatePem server)
     \<and> try_find_child ''DeadlineMongoCert'' st = Some (CX509CertificatePem client)
     \<and> signing_certificate server = Some sample_root_ca
     \<and> signing_certificate client = Some sample_root_ca
     \<and> database st = Some (for_mongo_db_instance m p)
     \<and> source_certificate p = client"
proof -
  obtain st where h:
    "StorageTierMongoDB_init (Construct ''App'') ''StorageTier'' sample_mongo_props [] = Inr st"
    using sample_mongo_init_succeeds by blast
  have r: "root_ca sample_mongo_props = sample_root_ca"
    by (simp add: sample_mongo_props_def)
  from mongodb_certificates_signed_by_root_ca [OF h]
  show ?thesis using h unfolding r by blast
qed

text \<open>
  C7. The connection of a \<open>StorageTierMongoDB\<close> wraps the instance declared under the
  id \<open>MongoDb\<close> and the PKCS #12 bundle declared under \<open>DeadlineMongoPkcs12\<close>, whose
  source is the client certificate; the second component of the connection is a bundle,
  not a PEM certificate.
\<close>

theorem mongodb_connection_wraps_instance_and_pkcs12:
  assumes "StorageTierMongoDB_init scope sid props kw = Inr st"
  shows "\<exists>m client p.
           try_find_child ''MongoDb'' st = Some (CMongoDbInstance m)
         \<and> try_find_child ''DeadlineMongoCert'' st = Some (CX509CertificatePem client)
         \<and> try_find_child ''DeadlineMongoPkcs12'' st = Some (CX509CertificatePkcs12 p)
         \<and> source_certificate p = client
         \<and> database st = Some (for_mongo_db_instance m p)"
  using assms by (auto simp: init_defs getitem_0 split: list.splits)

theorem mongodb_connection_wraps_instance_and_pkcs12_witness:
  "\<exists>st m client p.
       StorageTierMongoDB_init (Construct ''App'') ''StorageTier'' sample_mongo_props [] = Inr st
     \<and> try_find_child ''MongoDb'' st = Some (CMongoDbInstance m)
     \<and> try_find_child ''DeadlineMongoCert'' st = Some (CX509CertificatePem client)
     \<and> try_find_child ''DeadlineMongoPkcs12'' st = Some (CX509CertificatePkcs12 p)
     \<and> source_certificate p = client
     \<and> database st = Some (for_mongo_db_instance m p)"
proof -
  obtain st where h:
    "StorageTierMongoDB_init (Construct ''App'') ''StorageTier'' sample_mongo_props [] = Inr st"
    using sample_mongo_init_succeeds by blast
  from mongodb_connection_wraps_instance_and_pkcs12 [OF h]
  show ?thesis using h by blast
qed

text \<open>
  C3. The post-install step of a \<open>StorageTierMongoDB\<close> has one X.509 user, the client
  certificate, and its role payload is the JSON text of a list of two entries:
  \<open>readWriteAnyDatabase\<close> on \<open>admin\<close>, then \<open>clusterMonitor\<close> on \<open>admin\<close>. The second
  equation spells the text out, the double quotes written as \<open>CHR 0x22\<close>.
\<close>

theorem mongodb_post_install_roles_payload:
  assumes "StorageTierMongoDB_init scope sid props kw = Inr st"
  shows "\<exists>ps u client.
           try_find_child ''MongoDbPostInstall'' st = Some (CMongoDbPostInstallSetup ps)
         \<and> try_find_child ''DeadlineMongoCert'' st = Some (CX509CertificatePem client)
         \<and> x509_auth_users (users ps) = [u]
         \<and> certificate u = cert client
         \<and> roles u =
             json_dumps
               (JList [JDict [(''role'', JStr ''readWriteAnyDatabase''), (''db'', JStr ''admin'')],
                       JDict [(''role'', JStr ''clusterMonitor''), (''db'', JStr ''admin'')]])
         \<and> roles u =
             ''[{'' @ [CHR 0x22] @ ''role'' @ [CHR 0x22] @ '': '' @
                      [CHR 0x22] @ ''readWriteAnyDatabase'' @ [CHR 0x22] @ '', '' @
                      [CHR 0x22] @ ''db'' @ [CHR 0x22] @ '': '' @
                      [CHR 0x22] @ ''admin'' @ [CHR 0x22] @ ''}, {'' @
                      [CHR 0x22] @ ''role'' @ [CHR 0x22] @ '': '' @
                      [CHR 0x22] @ ''clusterMonitor'' @ [CHR 0x22] @ '', '' @
                      [CHR 0x22] @ ''db'' @ [CHR 0x22] @ '': '' @
                      [CHR 0x22] @ ''admin'' @ [CHR 0x22] @ ''}]''"
  using assms
  by (auto simp: init_defs getitem_0 x509_user_roles_def encode_basestring_ascii_def
        escape_ascii_def split: list.splits)

theorem mongodb_post_install_roles_payload_witness:
  "\<exists>st ps u.
       StorageTierMongoDB_init (Construct ''App'') ''StorageTier'' sample_mongo_props [] = Inr st
     \<and> try_find_child ''MongoDbPostInstall'' st = Some (CMongoDbPostInstallSetup ps)
     \<and> x509_auth_users (users ps) = [u]
     \<and> roles u =
         json_dumps
           (JList [JDict [(''role'', JStr ''readWriteAnyDatabase''), (''db'', JStr ''admin'')],
                   JDict [(''role'', JStr ''clusterMonitor''), (''db'', JStr ''admin'')]])"
proof -
  obtain st where h:
    "StorageTierMongoDB_init (Construct ''App'') ''StorageTier'' sample_mongo_props [] = Inr st"
    using sample_mongo_init_succeeds by blast
  from mongodb_post_install_roles_payload [OF h]
  show ?thesis using h by blast
qed

text \<open>
  C10. The common name of the server certificate is \<open>mongo.\<close> followed by the name of
  the DNS zone of the properties; the instance is registered under the hostname
  \<open>mongo\<close> in that same zone and is given that certificate, so the common name is the
  hostname, a dot and the zone name of the instance.
\<close>

theorem mongodb_server_cn_matches_dns_name:
  assumes "StorageTierMongoDB_init scope sid props kw = Inr st"
  shows "\<exists>server m.
           try_find_child ''MongoCert'' st = Some (CX509CertificatePem server)
         \<and> try_find_child ''MongoDb'' st = Some (CMongoDbInstance m)
         \<and> server_certificate (MongoDbInstance.mongo_db m) = server
         \<and> cn (subject server) = ''mongo.'' @ zone_name (StorageTierMongoDBProps.dns_zone props)
         \<and> hostname (MongoDbInstance.mongo_db m) = ''mongo''
         \<and> MongoDbApplicationProps.dns_zone (MongoDbInstance.mongo_db m)
              = StorageTierMongoDBProps.dns_zone props
         \<and> cn (subject server) =
              hostname (MongoDbInstance.mongo_db m) @ ''.'' @
              zone_name (MongoDbApplicationProps.dns_zone (MongoDbInstance.mongo_db m))"
  using assms by (auto simp: init_defs getitem_0 split: list.splits)

theorem mongodb_server_cn_matches_dns_name_witness:
  "\<exists>st server m.
       StorageTierMongoDB_init (Construct ''App'') ''StorageTier'' sample_mongo_props [] = Inr st
     \<and> try_find_child ''MongoCert'' st = Some (CX509CertificatePem server)
     \<and> try_find_child ''MongoDb'' st = Some (CMongoDbInstance m)
     \<and> cn (subject server) = ''mongo.deadline-test.internal''
     \<and> hostname (MongoDbInstance.mongo_db m) = ''mongo''
     \<and> zone_name (MongoDbApplicationProps.dns_zone (MongoDbInstance.mongo_db m))
          = ''deadline-test.internal''"
proof -
  obtain st where h:
    "StorageTierMongoDB_init (Construct ''App'') ''StorageTier'' sample_mongo_props [] = Inr st"
    using sample_mongo_init_succeeds by blast
  have z: "zone_name (StorageTierMongoDBProps.dns_zone sample_mongo_props)
             = ''deadline-test.internal''"
    by (simp add: sample_mongo_props_def)
  from mongodb_server_cn_matches_dns_name [OF h]
  obtain server m where
      "try_find_child ''MongoCert'' st = Some (CX509CertificatePem server)"
      "try_find_child ''MongoDb'' st = Some (CMongoDbInstance m)"
      "cn (subject server)
         = ''mongo.'' @ zone_name (StorageTierMongoDBProps.dns_zone sample_mongo_props)"
      "hostname (MongoDbInstance.mongo_db m) = ''mongo''"
      "MongoDbApplicationProps.dns_zone (MongoDbInstance.mongo_db m)
         = StorageTierMongoDBProps.dns_zone sample_mongo_props"
    by blast
  with h z show ?thesis by auto
qed

subsection \<open>Removal policies\<close>

text \<open>
  C5, as stated: every stateful resource declared in a stack carries the removal policy
  \<open>DESTROY\<close>. This fails for the MongoDB variant: its stateful resources are the file
  system, declared with \<open>DESTROY\<close>, and the MongoDB instance, which is declared without
  a removal policy.
\<close>

theorem stateful_resources_destroy_counterexample:
  "map_sum id stateful_resources_destroy
     (StorageTierMongoDB_init (Construct ''App'') ''StorageTier'' sample_mongo_props [])
     = Inr False
   \<and> map_sum id (map declared_removal_policy \<circ> stateful_resources)
       (StorageTierMongoDB_init (Construct ''App'') ''StorageTier'' sample_mongo_props [])
     = Inr [Some DESTROY, None]"
  by (simp add: init_defs getitem_0 sample_zones stateful_resources_destroy_def
        stateful_resources_def)

text \<open>
  C5, amended. Every stateful resource of \<open>StorageTier\<close> (the file system) and of
  \<open>StorageTierDocDB\<close> (the file system and the cluster) carries \<open>DESTROY\<close>. The
  stateful resources of \<open>StorageTierMongoDB\<close> are the file system, which carries
  \<open>DESTROY\<close>, and the MongoDB instance, which is declared without a removal policy; none
  of its other constructs is declared with one. In all three stacks the file system is the
  one exposed as \<open>file_system\<close>, and every removal policy the module declares is
  \<open>DESTROY\<close>, a literal of the source that no property overrides.
\<close>

theorem removal_policy_destroy:
  assumes "StorageTierMongoDB_init scope sid mprops kw = Inr mst"
  shows "stateful_resources_destroy (StorageTier_init scope sid props kw)
       \<and> stateful_resources (StorageTier_init scope sid props kw)
           = [CFileSystem (filesystem (file_system (StorageTier_init scope sid props kw)))]
       \<and> stateful_resources_destroy (StorageTierDocDB_init scope sid dprops kw)
       \<and> (\<exists>c. stateful_resources (StorageTierDocDB_init scope sid dprops kw)
                = [CFileSystem
                     (filesystem (file_system (StorageTierDocDB_init scope sid dprops kw))),
                   CDatabaseCluster c]
              \<and> try_find_child ''DocDBCluster'' (StorageTierDocDB_init scope sid dprops kw)
                  = Some (CDatabaseCluster c)
              \<and> DatabaseCluster.removal_policy c = DESTROY)
       \<and> (\<exists>m. stateful_resources mst
                = [CFileSystem (filesystem (file_system mst)), CMongoDbInstance m]
              \<and> try_find_child ''MongoDb'' mst = Some (CMongoDbInstance m)
              \<and> declared_removal_policy (CMongoDbInstance m) = None)
       \<and> map declared_removal_policy (children mst)
           = [Some DESTROY, None, None, None, None, None]
       \<and> set (declared_removal_policies (StorageTier_init scope sid props kw)) = {DESTROY}
       \<and> set (declared_removal_policies (StorageTierDocDB_init scope sid dprops kw)) = {DESTROY}
       \<and> set (declared_removal_policies mst) = {DESTROY}
       \<and> FileSystem.removal_policy
           (filesystem (file_system (StorageTier_init scope sid props kw))) = DESTROY
       \<and> FileSystem.removal_policy
           (filesystem (file_system (StorageTierDocDB_init scope sid dprops kw))) = DESTROY
       \<and> FileSystem.removal_policy (filesystem (file_system mst)) = DESTROY
       \<and> try_find_child ''EfsFileSystem'' (StorageTier_init scope sid props kw)
           = Some (CFileSystem (filesystem (file_system (StorageTier_init scope sid props kw))))
       \<and> try_find_child ''EfsFileSystem'' (StorageTierDocDB_init scope sid dprops kw)
           = Some (CFileSystem
                     (filesystem (file_system (StorageTierDocDB_init scope sid dprops kw))))
       \<and> try_find_child ''EfsFileSystem'' mst = Some (CFileSystem (filesystem (file_system mst)))"
  using assms
  by (auto simp: init_defs getitem_0 declared_removal_policies_def map_filter_simps
        stateful_resources_destroy_def stateful_resources_def split: list.splits)

theorem removal_policy_destroy_witness:
  "\<exists>mst m. StorageTierMongoDB_init (Construct ''App'') ''StorageTier'' sample_mongo_props []
            = Inr mst
     \<and> stateful_resources mst
         = [CFileSystem (filesystem (file_system mst)), CMongoDbInstance m]
     \<and> FileSystem.removal_policy (filesystem (file_system mst)) = DESTROY
     \<and> set (declared_removal_policies mst) = {DESTROY}
     \<and> stateful_resources_destroy
         (StorageTierDocDB_init (Construct ''App'') ''StorageTier'' sample_docdb_props [])"
proof -
  obtain mst where h:
    "StorageTierMongoDB_init (Construct ''App'') ''StorageTier'' sample_mongo_props [] = Inr mst"
    using sample_mongo_init_succeeds by blast
  from removal_policy_destroy [OF h, of sample_docdb_props sample_docdb_props]
  show ?thesis using h by blast
qed

end
